theory Spec2Isabelle
  imports Complex_Main
begin

section \<open>Python values, errors and dictionaries\<close>

text \<open>
  The evaluation framework is Python. Exceptions are values of \<open>py_error\<close>; a function
  that can raise returns \<open>py_error + 'a\<close> with \<open>Inl\<close> for the exception. Python floats
  are idealised as exact reals, Python ints are \<open>int\<close> or \<open>nat\<close> (counters). A string is a
  \<open>char list\<close>; the model covers ASCII text: case conversion and whitespace are Python's
  on the characters below 128 and leave every other character alone.
\<close>

datatype py_error =
  ZeroDivisionError | AttributeError | TypeError | ValueError | KeyError
  | FileNotFoundError | RuntimeError | JSONDecodeError | RecursionError

text \<open>What \<open>json.loads\<close> returns, and so what a prediction is made of.\<close>

datatype pyval =
  PNone
  | PBool bool
  | PInt int
  | PFloat real
  | PStr string
  | PList "pyval list"
  | PDict "(string \<times> pyval) list"

text \<open>Truth value of a Python object, as \<open>if x\<close> and \<open>not x\<close> test it.\<close>

fun truthy :: "pyval \<Rightarrow> bool" where
  "truthy PNone = False"
| "truthy (PBool b) = b"
| "truthy (PInt i) = (i \<noteq> 0)"
| "truthy (PFloat r) = (r \<noteq> 0)"
| "truthy (PStr s) = (s \<noteq> [])"
| "truthy (PList xs) = (xs \<noteq> [])"
| "truthy (PDict kvs) = (kvs \<noteq> [])"

text \<open>
  A \<open>dict\<close> keeps insertion order: assigning to a key that is present replaces the value
  where the key already stands, assigning to a new key appends it.
\<close>

fun dict_set :: "('k \<times> 'v) list \<Rightarrow> 'k \<Rightarrow> 'v \<Rightarrow> ('k \<times> 'v) list" where
  "dict_set [] k v = [(k, v)]"
| "dict_set ((k', v') # d) k v =
     (if k' = k then (k, v) # d else (k', v') # dict_set d k v)"

definition dict_get :: "('k \<times> 'v) list \<Rightarrow> 'k \<Rightarrow> 'v option" where
  "dict_get d k = map_of d k"

text \<open>\<open>d.get(k, default)\<close>.\<close>

definition dict_get_default :: "('k \<times> 'v) list \<Rightarrow> 'k \<Rightarrow> 'v \<Rightarrow> 'v" where
  "dict_get_default d k dflt = (case map_of d k of None \<Rightarrow> dflt | Some v \<Rightarrow> v)"

text \<open>\<open>pred.get(k)\<close> on a parsed prediction: only a dict has \<open>get\<close>; a missing key gives \<open>None\<close>.\<close>

fun py_get :: "pyval \<Rightarrow> string \<Rightarrow> py_error + pyval" where
  "py_get (PDict kvs) k = Inr (dict_get_default kvs k PNone)"
| "py_get _ k = Inl AttributeError"

section \<open>String operations\<close>

definition is_ascii_lower :: "char \<Rightarrow> bool" where
  "is_ascii_lower c = (97 \<le> (of_char c :: nat) \<and> (of_char c :: nat) \<le> 122)"

definition is_ascii_upper :: "char \<Rightarrow> bool" where
  "is_ascii_upper c = (65 \<le> (of_char c :: nat) \<and> (of_char c :: nat) \<le> 90)"

definition upper_char :: "char \<Rightarrow> char" where
  "upper_char c = (if is_ascii_lower c then char_of ((of_char c :: nat) - 32) else c)"

definition lower_char :: "char \<Rightarrow> char" where
  "lower_char c = (if is_ascii_upper c then char_of ((of_char c :: nat) + 32) else c)"

definition str_upper :: "string \<Rightarrow> string" where
  "str_upper s = map upper_char s"

definition str_lower :: "string \<Rightarrow> string" where
  "str_lower s = map lower_char s"

text \<open>The ASCII characters \<open>str.strip()\<close> removes: tab to carriage return, FS to US, space.\<close>

definition is_space :: "char \<Rightarrow> bool" where
  "is_space c = ((of_char c :: nat) \<in> {9, 10, 11, 12, 13, 28, 29, 30, 31, 32})"

definition str_strip :: "string \<Rightarrow> string" where
  "str_strip s = rev (dropWhile is_space (rev (dropWhile is_space s)))"

definition str_startswith :: "string \<Rightarrow> string \<Rightarrow> bool" where
  "str_startswith s p = (take (length p) s = p)"

text \<open>
  \<open>s.split(sep)\<close> for a non-empty separator: cut at every occurrence found scanning from
  the left, occurrences never overlapping. (Python raises on an empty separator; the
  source only passes literals.)
\<close>

fun split_acc :: "string \<Rightarrow> string \<Rightarrow> string \<Rightarrow> string list" where
  "split_acc sep acc [] = [acc]"
| "split_acc [] acc (c # cs) = [acc @ c # cs]"
| "split_acc (s0 # ss) acc (c # cs) =
     (if take (Suc (length ss)) (c # cs) = s0 # ss
      then acc # split_acc (s0 # ss) [] (drop (length ss) cs)
      else split_acc (s0 # ss) (acc @ [c]) cs)"

definition str_split :: "string \<Rightarrow> string \<Rightarrow> string list" where
  "str_split s sep = split_acc sep [] s"

fun str_join :: "string \<Rightarrow> string list \<Rightarrow> string" where
  "str_join sep [] = []"
| "str_join sep [x] = x"
| "str_join sep (x # y # ys) = x @ sep @ str_join sep (y # ys)"

text \<open>The positions at which \<open>sub\<close> occurs in \<open>s\<close>, in increasing order.\<close>

definition occurrences :: "string \<Rightarrow> string \<Rightarrow> nat list" where
  "occurrences s sub =
     filter (\<lambda>i. take (length sub) (drop i s) = sub) [0 ..< Suc (length s - length sub)]"

definition str_contains :: "string \<Rightarrow> string \<Rightarrow> bool" where
  "str_contains s sub = (length sub \<le> length s \<and> occurrences s sub \<noteq> [])"

text \<open>\<open>s.find(sub)\<close> and \<open>s.rfind(sub)\<close>: first and last position, \<open>-1\<close> when there is none.\<close>

definition str_find :: "string \<Rightarrow> string \<Rightarrow> int" where
  "str_find s sub =
     (if str_contains s sub then int (hd (occurrences s sub)) else - 1)"

definition str_rfind :: "string \<Rightarrow> string \<Rightarrow> int" where
  "str_rfind s sub =
     (if str_contains s sub then int (last (occurrences s sub)) else - 1)"

text \<open>The slice \<open>s[i:j]\<close> for \<open>0 \<le> i\<close> and \<open>0 \<le> j\<close>.\<close>

definition slice :: "'a list \<Rightarrow> int \<Rightarrow> int \<Rightarrow> 'a list" where
  "slice s i j = take (nat j - nat i) (drop (nat i) s)"

section \<open>Label normalisation (evaluator.py and metrics.py, the same code in both)\<close>

definition shot_type_mapping :: "(string \<times> string) list" where
  "shot_type_mapping =
     [(''LAY_UP'', ''lay_up''),
      (''IN_PAINT'', ''in_paint''),
      (''MID_RANGE'', ''mid_range''),
      (''THREE_POINTER'', ''three_pointer''),
      (''FREE_THROW'', ''free_throw'')]"

text \<open>
  \<open>_normalize_shot_type\<close> at its declared type \<open>Optional[str]\<close>: \<open>None\<close> and the empty
  string give \<open>None\<close>; otherwise the table entry of the upper-cased input, and the
  lower-cased input when the table has none.
\<close>

definition normalize_shot_type :: "string option \<Rightarrow> string option" where
  "normalize_shot_type shot_type =
     (case shot_type of
        None \<Rightarrow> None
      | Some s \<Rightarrow>
          if s = [] then None
          else Some (dict_get_default shot_type_mapping (str_upper s) (str_lower s)))"

definition normalize_result :: "string option \<Rightarrow> string option" where
  "normalize_result result =
     (case result of
        None \<Rightarrow> None
      | Some s \<Rightarrow>
          if s = [] then None
          else (let result_upper = str_upper s in
                if result_upper = ''MAKE'' then Some ''make''
                else if result_upper = ''MISS'' then Some ''miss''
                else None))"

text \<open>
  The normalisers are called on \<open>pred.get(...)\<close>, which can be any JSON value. A falsy
  value of any type takes the \<open>not x\<close> exit and so behaves as \<open>None\<close>; a truthy value that
  is not a string has no \<open>upper\<close>.
\<close>

fun as_optional_str :: "pyval \<Rightarrow> py_error + string option" where
  "as_optional_str (PStr s) = Inr (Some s)"
| "as_optional_str v = (if truthy v then Inl AttributeError else Inr None)"

section \<open>Dataset synchronisation (data_manager.py)\<close>

text \<open>
  The rows of the three remote tables, with the columns the code reads. Identifiers and
  field names are strings. \<open>created_at\<close> is an ISO timestamp string that the fallback
  compares with \<open>>\<close> and the query sorts with \<open>ORDER BY\<close>; the model takes it from any
  linearly ordered type. Columns that are only copied into the result are kept as JSON
  values; the label columns and \<open>override_value\<close> may be null.
\<close>

record 't clip_row =
  c_id :: string
  c_storage_key :: string
  c_duration_s :: pyval
  c_created_at :: 't

record 't analysis_row =
  a_id :: string
  a_clip_id :: string
  a_status :: string
  a_shot_type :: "string option"
  a_result :: "string option"
  a_confidence :: pyval
  a_tips_text :: pyval
  a_completed_at :: 't

record 't override_row =
  o_analysis_id :: string
  o_field_name :: string
  o_override_value :: "string option"
  o_created_at :: 't

text \<open>One row of the evaluation dataset, as both paths of \<open>fetch_evaluation_dataset\<close> build it.\<close>

record 't dataset_row =
  clip_id :: string
  storage_key :: string
  duration_s :: pyval
  clip_created_at :: 't
  analysis_id :: string
  original_shot_type :: "string option"
  original_result :: "string option"
  confidence :: pyval
  tips_text :: pyval
  completed_at :: 't
  ground_truth_shot_type :: "string option"
  ground_truth_result :: "string option"

subsection \<open>The fallback: \<open>_process_fallback_data\<close>\<close>

text \<open>\<open>{clip['id']: clip for clip in clips_data}\<close>\<close>

definition build_clips_dict :: "'t clip_row list \<Rightarrow> (string \<times> 't clip_row) list" where
  "build_clips_dict clips_data = fold (\<lambda>clip d. dict_set d (c_id clip) clip) clips_data []"

text \<open>\<open>{analysis['clip_id']: analysis for analysis in analysis_data}\<close>\<close>

definition build_analysis_dict ::
  "'t analysis_row list \<Rightarrow> (string \<times> 't analysis_row) list" where
  "build_analysis_dict analysis_data =
     fold (\<lambda>analysis d. dict_set d (a_clip_id analysis) analysis) analysis_data []"

text \<open>
  One pass of the loop over \<open>overrides_data\<close>: the row is stored when its key is new or
  its \<open>created_at\<close> is strictly greater than the stored row's.
\<close>

definition override_step ::
  "('t::linorder) override_row \<Rightarrow> ((string \<times> string) \<times> 't override_row) list
     \<Rightarrow> ((string \<times> string) \<times> 't override_row) list" where
  "override_step override overrides_dict =
     (let key = (o_analysis_id override, o_field_name override) in
      case dict_get overrides_dict key of
        None \<Rightarrow> dict_set overrides_dict key override
      | Some stored \<Rightarrow>
          if o_created_at override > o_created_at stored
          then dict_set overrides_dict key override
          else overrides_dict)"

definition build_overrides_dict ::
  "('t::linorder) override_row list \<Rightarrow> ((string \<times> string) \<times> 't override_row) list" where
  "build_overrides_dict overrides_data = fold override_step overrides_data []"

text \<open>
  \<open>o['override_value'] if o else analysis[field]\<close>, where \<open>o\<close> is
  \<open>overrides_dict.get((analysis['id'], field))\<close>: a stored row is a non-empty dict and so
  always truthy.
\<close>

definition resolve_field ::
  "((string \<times> string) \<times> 't override_row) list \<Rightarrow> string \<Rightarrow> string \<Rightarrow> string option
     \<Rightarrow> string option" where
  "resolve_field overrides_dict aid field original =
     (case dict_get overrides_dict (aid, field) of
        Some override \<Rightarrow> o_override_value override
      | None \<Rightarrow> original)"

definition combined ::
  "((string \<times> string) \<times> 't override_row) list \<Rightarrow> string \<Rightarrow> 't clip_row \<Rightarrow> 't analysis_row
     \<Rightarrow> 't dataset_row" where
  "combined overrides_dict cid clip analysis =
     \<lparr> clip_id = cid,
       storage_key = c_storage_key clip,
       duration_s = c_duration_s clip,
       clip_created_at = c_created_at clip,
       analysis_id = a_id analysis,
       original_shot_type = a_shot_type analysis,
       original_result = a_result analysis,
       confidence = a_confidence analysis,
       tips_text = a_tips_text analysis,
       completed_at = a_completed_at analysis,
       ground_truth_shot_type =
         resolve_field overrides_dict (a_id analysis) ''shot_type'' (a_shot_type analysis),
       ground_truth_result =
         resolve_field overrides_dict (a_id analysis) ''result'' (a_result analysis) \<rparr>"

text \<open>The loop over \<open>clips_dict.items()\<close>, appending a row for every clip that has an analysis.\<close>

fun combine_loop ::
  "(string \<times> 't analysis_row) list \<Rightarrow> ((string \<times> string) \<times> 't override_row) list
     \<Rightarrow> (string \<times> 't clip_row) list \<Rightarrow> 't dataset_row list" where
  "combine_loop analysis_dict overrides_dict [] = []"
| "combine_loop analysis_dict overrides_dict ((cid, clip) # items) =
     (case dict_get analysis_dict cid of
        Some analysis \<Rightarrow>
          combined overrides_dict cid clip analysis
            # combine_loop analysis_dict overrides_dict items
      | None \<Rightarrow> combine_loop analysis_dict overrides_dict items)"

definition process_fallback_data ::
  "('t::linorder) clip_row list \<Rightarrow> 't analysis_row list \<Rightarrow> 't override_row list
     \<Rightarrow> 't dataset_row list" where
  "process_fallback_data clips_data analysis_data overrides_data =
     (let clips_dict = build_clips_dict clips_data;
          analysis_dict = build_analysis_dict analysis_data;
          overrides_dict = build_overrides_dict overrides_data
      in combine_loop analysis_dict overrides_dict clips_dict)"

subsection \<open>The joined query of \<open>fetch_evaluation_dataset\<close>\<close>

text \<open>
  The SQL text of the source, read with the usual semantics: \<open>ORDER BY k DESC\<close> is a
  sort (the order among equal keys is the database's choice; here the sort is stable
  on the reversed scan), \<open>LIMIT 1\<close> keeps the first row, a scalar subquery without rows
  is \<open>NULL\<close>, and \<open>COALESCE\<close> takes its first argument that is not \<open>NULL\<close>.
\<close>

definition order_by_desc :: "('a \<Rightarrow> 'k::linorder) \<Rightarrow> 'a list \<Rightarrow> 'a list" where
  "order_by_desc k rows = rev (sort_key k rows)"

definition coalesce :: "'a option \<Rightarrow> 'a option \<Rightarrow> 'a option" where
  "coalesce x y = (case x of Some v \<Rightarrow> Some v | None \<Rightarrow> y)"

text \<open>
  \<open>SELECT override_value FROM analysis_overrides ao WHERE ao.analysis_id = a.id AND
  ao.field_name = f ORDER BY ao.created_at DESC LIMIT 1\<close>
\<close>

definition latest_override_value ::
  "('t::linorder) override_row list \<Rightarrow> string \<Rightarrow> string \<Rightarrow> string option" where
  "latest_override_value analysis_overrides aid field =
     (case order_by_desc o_created_at
             (filter (\<lambda>ao. o_analysis_id ao = aid \<and> o_field_name ao = field)
                analysis_overrides) of
        [] \<Rightarrow> None
      | ao # _ \<Rightarrow> o_override_value ao)"

definition select_row ::
  "('t::linorder) override_row list \<Rightarrow> 't clip_row \<Rightarrow> 't analysis_row \<Rightarrow> 't dataset_row" where
  "select_row analysis_overrides c a =
     \<lparr> clip_id = c_id c,
       storage_key = c_storage_key c,
       duration_s = c_duration_s c,
       clip_created_at = c_created_at c,
       analysis_id = a_id a,
       original_shot_type = a_shot_type a,
       original_result = a_result a,
       confidence = a_confidence a,
       tips_text = a_tips_text a,
       completed_at = a_completed_at a,
       ground_truth_shot_type =
         coalesce (latest_override_value analysis_overrides (a_id a) ''shot_type'')
           (a_shot_type a),
       ground_truth_result =
         coalesce (latest_override_value analysis_overrides (a_id a) ''result'')
           (a_result a) \<rparr>"

text \<open>
  \<open>FROM clips c JOIN analysis a ON c.id = a.clip_id WHERE a.status = 'success'
  ORDER BY c.created_at DESC\<close>
\<close>

definition joined_query ::
  "('t::linorder) clip_row list \<Rightarrow> 't analysis_row list \<Rightarrow> 't override_row list
     \<Rightarrow> 't dataset_row list" where
  "joined_query clips analysis analysis_overrides =
     order_by_desc clip_created_at
       (concat (map (\<lambda>c. map (select_row analysis_overrides c)
                             (filter (\<lambda>a. c_id c = a_clip_id a \<and> a_status a = ''success'')
                                analysis))
                  clips))"

text \<open>
  \<open>fetch_evaluation_dataset\<close>: the joined query when the \<open>execute_sql\<close> call succeeds,
  otherwise three table reads (the analysis table filtered to \<open>status = 'success'\<close>) and
  the local reconstruction.
\<close>

definition fallback_dataset ::
  "('t::linorder) clip_row list \<Rightarrow> 't analysis_row list \<Rightarrow> 't override_row list
     \<Rightarrow> 't dataset_row list" where
  "fallback_dataset clips analysis analysis_overrides =
     process_fallback_data clips (filter (\<lambda>a. a_status a = ''success'') analysis)
       analysis_overrides"

definition fetch_evaluation_dataset ::
  "bool \<Rightarrow> ('t::linorder) clip_row list \<Rightarrow> 't analysis_row list \<Rightarrow> 't override_row list
     \<Rightarrow> 't dataset_row list" where
  "fetch_evaluation_dataset rpc_ok clips analysis analysis_overrides =
     (if rpc_ok then joined_query clips analysis analysis_overrides
      else fallback_dataset clips analysis analysis_overrides)"

text \<open>
  What a ground-truth entry is compared by: its clip and its two resolved labels.
\<close>

definition entry_of :: "'t dataset_row \<Rightarrow> string \<times> string option \<times> string option" where
  "entry_of r = (clip_id r, ground_truth_shot_type r, ground_truth_result r)"

text \<open>The overrides of one field of one analysis, in the order of the table read.\<close>

definition overrides_for ::
  "'t override_row list \<Rightarrow> string \<Rightarrow> string \<Rightarrow> 't override_row list" where
  "overrides_for overrides_data aid field =
     filter (\<lambda>override. o_analysis_id override = aid \<and> o_field_name override = field)
       overrides_data"

subsection \<open>Override resolution, as the specification words it\<close>

text \<open>
  The authoritative override of a non-empty list of overrides of one field: the one
  with the maximum \<open>created_at\<close>; of several with that same \<open>created_at\<close>, the first in
  the order of the table read.
\<close>

definition newest_override :: "('t::linorder) override_row list \<Rightarrow> 't override_row" where
  "newest_override ms =
     hd (filter (\<lambda>override. o_created_at override = Max (o_created_at ` set ms)) ms)"

text \<open>The comparison inside the loop over \<open>overrides_data\<close>, on its own.\<close>

definition pick_newer ::
  "('t::linorder) override_row \<Rightarrow> 't override_row \<Rightarrow> 't override_row" where
  "pick_newer override stored =
     (if o_created_at override > o_created_at stored then override else stored)"

subsection \<open>Sample tables\<close>

definition sample_clip :: "nat clip_row" where
  "sample_clip =
     \<lparr> c_id = ''clip-1'', c_storage_key = ''u1/clip-1.mp4'', c_duration_s = PInt 4,
       c_created_at = 10 \<rparr>"

definition sample_analysis :: "nat analysis_row" where
  "sample_analysis =
     \<lparr> a_id = ''an-1'', a_clip_id = ''clip-1'', a_status = ''success'',
       a_shot_type = Some ''lay_up'', a_result = Some ''make'',
       a_confidence = PInt 1, a_tips_text = PStr ''follow through'',
       a_completed_at = 11 \<rparr>"

text \<open>A second successful analysis of the same clip, with another shot type.\<close>

definition second_analysis :: "nat analysis_row" where
  "second_analysis =
     \<lparr> a_id = ''an-2'', a_clip_id = ''clip-1'', a_status = ''success'',
       a_shot_type = Some ''mid_range'', a_result = Some ''make'',
       a_confidence = PInt 1, a_tips_text = PStr ''follow through'',
       a_completed_at = 12 \<rparr>"

definition sample_override :: "string \<Rightarrow> string option \<Rightarrow> nat \<Rightarrow> nat override_row" where
  "sample_override field v t =
     \<lparr> o_analysis_id = ''an-1'', o_field_name = field, o_override_value = v,
       o_created_at = t \<rparr>"

text \<open>Three corrections of the shot type; the newest is the second in the list.\<close>

definition sample_overrides :: "nat override_row list" where
  "sample_overrides =
     [sample_override ''shot_type'' (Some ''mid_range'') 20,
      sample_override ''shot_type'' (Some ''three_pointer'') 30,
      sample_override ''shot_type'' (Some ''in_paint'') 25]"

definition sample_row :: "nat dataset_row" where
  "sample_row =
     \<lparr> clip_id = ''clip-1'', storage_key = ''u1/clip-1.mp4'', duration_s = PInt 4,
       clip_created_at = 10, analysis_id = ''an-1'',
       original_shot_type = Some ''lay_up'', original_result = Some ''make'',
       confidence = PInt 1, tips_text = PStr ''follow through'', completed_at = 11,
       ground_truth_shot_type = Some ''three_pointer'',
       ground_truth_result = Some ''make'' \<rparr>"


subsection \<open>The saved snapshot and \<open>get_dataset_stats\<close>\<close>

text \<open>
  An entry of \<open>ground_truth.json\<close>, with the fields that \<open>get_dataset_stats\<close> and
  \<open>evaluate_model\<close> read: the clip, its duration, the path of the local video, the
  ground-truth labels and the labels of the original analysis.
\<close>

record gt_entry =
  e_clip_id :: string
  e_duration_s :: real
  e_video_path :: string
  e_gt_shot_type :: "string option"
  e_gt_result :: "string option"
  e_orig_shot_type :: "string option"
  e_orig_result :: "string option"

text \<open>
  \<open>load_ground_truth\<close>: the file system is the content of the ground-truth file, \<open>None\<close>
  when the file does not exist.
\<close>

definition load_ground_truth :: "gt_entry list option \<Rightarrow> py_error + gt_entry list" where
  "load_ground_truth ground_truth_file =
     (case ground_truth_file of
        None \<Rightarrow> Inl FileNotFoundError
      | Some entries \<Rightarrow> Inr entries)"

record stats =
  total_clips :: nat
  shot_type_distribution :: "(string option \<times> nat) list"
  result_distribution :: "(string option \<times> nat) list"
  has_user_corrections :: nat
  average_duration :: real
  videos_downloaded :: nat
  correction_rate :: real

text \<open>What \<open>get_dataset_stats\<close> returns: the \<open>{"error": ...}\<close> dict or the statistics.\<close>

datatype stats_result = NoDataset | Stats stats

text \<open>The body of the loop over the entries; \<open>exists\<close> is \<open>Path(p).exists()\<close>.\<close>

definition stats_step :: "(string \<Rightarrow> bool) \<Rightarrow> gt_entry \<Rightarrow> stats \<Rightarrow> stats" where
  "stats_step exists entry st =
     (let shot_type = e_gt_shot_type entry;
          st1 = st\<lparr> shot_type_distribution :=
                   dict_set (shot_type_distribution st) shot_type
                     (dict_get_default (shot_type_distribution st) shot_type 0 + 1) \<rparr>;
          result = e_gt_result entry;
          st2 = st1\<lparr> result_distribution :=
                   dict_set (result_distribution st1) result
                     (dict_get_default (result_distribution st1) result 0 + 1) \<rparr>;
          st3 = (if e_gt_shot_type entry \<noteq> e_orig_shot_type entry
                    \<or> e_gt_result entry \<noteq> e_orig_result entry
                 then st2\<lparr> has_user_corrections := has_user_corrections st2 + 1 \<rparr>
                 else st2);
          st4 = st3\<lparr> average_duration := average_duration st3 + e_duration_s entry \<rparr>
      in if exists (e_video_path entry)
         then st4\<lparr> videos_downloaded := videos_downloaded st4 + 1 \<rparr>
         else st4)"

text \<open>
  The statistics before the loop; \<open>correction_rate\<close> is only set after it (the field
  holds 0 until then).
\<close>

definition initial_stats :: "gt_entry list \<Rightarrow> stats" where
  "initial_stats ground_truth =
     \<lparr> total_clips = length ground_truth,
       shot_type_distribution = [],
       result_distribution = [],
       has_user_corrections = 0,
       average_duration = 0,
       videos_downloaded = 0,
       correction_rate = 0 \<rparr>"

text \<open>
  \<open>get_dataset_stats\<close>: only \<open>FileNotFoundError\<close> is caught; the two divisions after the
  loop divide by \<open>len(ground_truth)\<close>.
\<close>

definition get_dataset_stats ::
  "(string \<Rightarrow> bool) \<Rightarrow> gt_entry list option \<Rightarrow> py_error + stats_result" where
  "get_dataset_stats exists ground_truth_file =
     (case load_ground_truth ground_truth_file of
        Inl FileNotFoundError \<Rightarrow> Inr NoDataset
      | Inl e \<Rightarrow> Inl e
      | Inr ground_truth \<Rightarrow>
          (let st = fold (stats_step exists) ground_truth (initial_stats ground_truth) in
           if length ground_truth = 0 then Inl ZeroDivisionError
           else
             (let st' = st\<lparr> average_duration :=
                               average_duration st / real (length ground_truth) \<rparr>
              in Inr (Stats (st'\<lparr> correction_rate :=
                                   real (has_user_corrections st')
                                     / real (length ground_truth) \<rparr>)))))"

text \<open>An entry counts as corrected when either label differs from the original analysis.\<close>

definition is_corrected :: "gt_entry \<Rightarrow> bool" where
  "is_corrected entry =
     (e_gt_shot_type entry \<noteq> e_orig_shot_type entry
      \<or> e_gt_result entry \<noteq> e_orig_result entry)"

definition sample_entry :: gt_entry where
  "sample_entry =
     \<lparr> e_clip_id = ''clip-1'', e_duration_s = 4, e_video_path = ''data/videos/clip-1.mp4'',
       e_gt_shot_type = Some ''three_pointer'', e_gt_result = Some ''make'',
       e_orig_shot_type = Some ''lay_up'', e_orig_result = Some ''make'' \<rparr>"

section \<open>Confusion matrices (metrics.py)\<close>

definition shot_types :: "string list" where
  "shot_types = [''lay_up'', ''in_paint'', ''mid_range'', ''three_pointer'', ''free_throw'']"

definition results_labels :: "string list" where
  "results_labels = [''make'', ''miss'']"

text \<open>The separator of a confusion key, \<open>" -> "\<close>.\<close>

definition arrow :: string where
  "arrow = '' -> ''"

text \<open>\<open>labels.index(x)\<close> for an \<open>x\<close> that is in \<open>labels\<close>: the first position of \<open>x\<close>.\<close>

definition list_index :: "'a list \<Rightarrow> 'a \<Rightarrow> nat" where
  "list_index labels x = length (takeWhile (\<lambda>y. y \<noteq> x) labels)"

text \<open>\<open>matrix[i][j] = count\<close>, with both indices in range.\<close>

definition matrix_set :: "int list list \<Rightarrow> nat \<Rightarrow> nat \<Rightarrow> int \<Rightarrow> int list list" where
  "matrix_set matrix i j count = matrix[i := (matrix ! i)[j := count]]"

text \<open>
  The body of the loop over \<open>confusion_dict.items()\<close>. The tuple assignment
  \<open>true_label, pred_label = transition.split(" -> ")\<close> needs exactly two pieces and
  raises \<open>ValueError\<close> otherwise. Counts are Python ints stored in an integer array; they
  are taken to fit its element type.
\<close>

definition confusion_step ::
  "string list \<Rightarrow> string \<times> int \<Rightarrow> int list list \<Rightarrow> py_error + int list list" where
  "confusion_step labels item matrix =
     (let transition = fst item; count = snd item in
      if str_contains transition arrow then
        (case str_split transition arrow of
           [true_label, pred_label] \<Rightarrow>
             if true_label \<in> set labels \<and> pred_label \<in> set labels then
               (let true_idx = list_index labels true_label;
                    pred_idx = list_index labels pred_label
                in Inr (matrix_set matrix true_idx pred_idx count))
             else Inr matrix
         | _ \<Rightarrow> Inl ValueError)
      else Inr matrix)"

fun confusion_loop ::
  "string list \<Rightarrow> (string \<times> int) list \<Rightarrow> int list list \<Rightarrow> py_error + int list list" where
  "confusion_loop labels [] matrix = Inr matrix"
| "confusion_loop labels (item # items) matrix =
     (case confusion_step labels item matrix of
        Inl e \<Rightarrow> Inl e
      | Inr matrix' \<Rightarrow> confusion_loop labels items matrix')"

text \<open>\<open>_build_confusion_matrix\<close>: the matrix starts as \<open>np.zeros((n, n), dtype=int)\<close>.\<close>

definition build_confusion_matrix ::
  "(string \<times> int) list \<Rightarrow> string list \<Rightarrow> py_error + (int list list \<times> string list)" where
  "build_confusion_matrix confusion_dict labels =
     (let matrix = replicate (length labels) (replicate (length labels) 0) in
      case confusion_loop labels confusion_dict matrix of
        Inl e \<Rightarrow> Inl e
      | Inr matrix' \<Rightarrow> Inr (matrix', labels))"

text \<open>The key under which the pair of labels \<open>(t, p)\<close> is counted: \<open>f"{t} -> {p}"\<close>.\<close>

definition confusion_key :: "string \<Rightarrow> string \<Rightarrow> string" where
  "confusion_key t p = t @ arrow @ p"

section \<open>Model evaluation (evaluator.py)\<close>

subsection \<open>A model of \<open>json.loads\<close>\<close>

text \<open>
  \<open>json.loads\<close> belongs to Python's standard library, not to the repository.
  \<open>_parse_model_output\<close> below takes the decoder as a parameter; a decoder returns the
  decoded value or raises, and \<open>JSONDecodeError\<close> is one exception among others. The
  decoder modelled here follows the standard library's scanner on ASCII text: objects,
  arrays, strings with the two-character escapes, numbers, \<open>null\<close>, \<open>true\<close> and
  \<open>false\<close>. Malformed text is a \<open>JSONDecodeError\<close>. Two other exceptions leave the
  scanner: \<open>RecursionError\<close> when containers nest deeper than the interpreter's
  recursion limit, and \<open>ValueError\<close> when an integer literal has more digits than the
  interpreter converts (CPython 3.11: 1000 and 4300 by default; the frames already in use
  lower the first a little). A \<open>\u\<close> escape is accepted up to \<open>\u00ff\<close> (beyond that a
  character has no image in an 8-bit \<open>char\<close>), and \<open>NaN\<close> and \<open>Infinity\<close> are outside
  the model (a float is a real). The recursion of the scanner is bounded by a fuel that
  the length of the text supplies: a recursive call consumes one unit, and at most two
  calls follow each other without a consumed character.
\<close>

definition recursion_limit :: nat where
  "recursion_limit = 1000"

definition int_max_str_digits :: nat where
  "int_max_str_digits = 4300"

definition is_json_space :: "char \<Rightarrow> bool" where
  "is_json_space c = (c = CHR '' '' \<or> c = CHR 0x09 \<or> c = CHR 0x0A \<or> c = CHR 0x0D)"

definition skip_ws :: "string \<Rightarrow> string" where
  "skip_ws s = dropWhile is_json_space s"

definition is_digit :: "char \<Rightarrow> bool" where
  "is_digit c = (48 \<le> (of_char c :: nat) \<and> (of_char c :: nat) \<le> 57)"

definition digits_value :: "string \<Rightarrow> nat" where
  "digits_value ds = foldl (\<lambda>n c. 10 * n + ((of_char c :: nat) - 48)) 0 ds"

definition hex_value :: "char \<Rightarrow> nat option" where
  "hex_value c =
     (let n = (of_char c :: nat) in
      if 48 \<le> n \<and> n \<le> 57 then Some (n - 48)
      else if 97 \<le> n \<and> n \<le> 102 then Some (n - 87)
      else if 65 \<le> n \<and> n \<le> 70 then Some (n - 55)
      else None)"

text \<open>The escapes \<open>\"\<close>, \<open>\\\<close>, \<open>\/\<close>, \<open>\b\<close>, \<open>\f\<close>, \<open>\n\<close>, \<open>\r\<close> and \<open>\t\<close>.\<close>

definition unescape :: "char \<Rightarrow> char option" where
  "unescape e =
     (if e = CHR 0x22 then Some (CHR 0x22)
      else if e = CHR 0x5C then Some (CHR 0x5C)
      else if e = CHR ''/'' then Some (CHR ''/'')
      else if e = CHR ''b'' then Some (CHR 0x08)
      else if e = CHR ''f'' then Some (CHR 0x0C)
      else if e = CHR ''n'' then Some (CHR 0x0A)
      else if e = CHR ''r'' then Some (CHR 0x0D)
      else if e = CHR ''t'' then Some (CHR 0x09)
      else None)"

definition unicode_escape :: "string \<Rightarrow> char option" where
  "unicode_escape hs =
     (case map hex_value hs of
        [Some a, Some b, Some c, Some d] \<Rightarrow>
          (let code = ((a * 16 + b) * 16 + c) * 16 + d in
           if code < 256 then Some (char_of code) else None)
      | _ \<Rightarrow> None)"

text \<open>
  The content of a string literal after its opening quote, and the text after its
  closing quote. A control character inside the literal is an error (strict mode).
\<close>

fun scanstring :: "string \<Rightarrow> string \<Rightarrow> (string \<times> string) option" where
  "scanstring acc [] = None"
| "scanstring acc [c] = (if c = CHR 0x22 then Some (acc, []) else None)"
| "scanstring acc (c # e # cs) =
     (if c = CHR 0x22 then Some (acc, e # cs)
      else if c = CHR 0x5C then
        (if e = CHR ''u'' then
           (case unicode_escape (take 4 cs) of
              None \<Rightarrow> None
            | Some ch \<Rightarrow> scanstring (acc @ [ch]) (drop 4 cs))
         else
           (case unescape e of
              None \<Rightarrow> None
            | Some ch \<Rightarrow> scanstring (acc @ [ch]) cs))
      else if (of_char c :: nat) < 32 then None
      else scanstring (acc @ [c]) (e # cs))"

text \<open>
  A number, by the scanner's pattern
  \<open>(-?(?:0|[1-9][0-9]*))(\.[0-9]+)?([eE][-+]?[0-9]+)?\<close>: an \<open>int\<close> when it has neither
  fraction nor exponent, a \<open>float\<close> otherwise.
\<close>

definition scan_fraction :: "string \<Rightarrow> string \<times> string" where
  "scan_fraction s =
     (case s of
        c # r \<Rightarrow>
          if c = CHR ''.'' \<and> takeWhile is_digit r \<noteq> []
          then (takeWhile is_digit r, dropWhile is_digit r)
          else ([], s)
      | [] \<Rightarrow> ([], s))"

definition scan_exponent :: "string \<Rightarrow> (int \<times> string) option" where
  "scan_exponent s =
     (case s of
        c # r \<Rightarrow>
          if c = CHR ''e'' \<or> c = CHR ''E'' then
            (let neg = (r \<noteq> [] \<and> hd r = CHR ''-'');
                 r' = (if r \<noteq> [] \<and> (hd r = CHR ''-'' \<or> hd r = CHR ''+'') then tl r else r);
                 ds = takeWhile is_digit r'
             in if ds = [] then None
                else Some ((if neg then - int (digits_value ds) else int (digits_value ds)),
                           dropWhile is_digit r'))
          else None
      | [] \<Rightarrow> None)"

definition power10 :: "int \<Rightarrow> real" where
  "power10 e = (if 0 \<le> e then 10 ^ nat e else 1 / 10 ^ nat (- e))"

definition scan_number :: "string \<Rightarrow> py_error + pyval \<times> string" where
  "scan_number s =
     (let neg = (s \<noteq> [] \<and> hd s = CHR ''-'');
          s1 = (if neg then tl s else s)
      in case s1 of
           [] \<Rightarrow> Inl JSONDecodeError
         | d # r \<Rightarrow>
             if \<not> is_digit d then Inl JSONDecodeError
             else
               (let int_digits = (if d = CHR ''0'' then [d] else takeWhile is_digit s1);
                    r1 = drop (length int_digits) s1;
                    (frac_digits, r2) = scan_fraction r1;
                    exponent = scan_exponent r2;
                    r3 = (case exponent of None \<Rightarrow> r2 | Some (e, r') \<Rightarrow> r')
                in if frac_digits = [] \<and> exponent = None
                   then (if length int_digits > int_max_str_digits then Inl ValueError
                         else Inr (PInt (if neg then - int (digits_value int_digits)
                                         else int (digits_value int_digits)), r3))
                   else
                     (let mantissa = real (digits_value int_digits)
                            + real (digits_value frac_digits) / 10 ^ length frac_digits;
                          e = (case exponent of None \<Rightarrow> 0 | Some (e, r') \<Rightarrow> e);
                          v = mantissa * power10 e
                      in Inr (PFloat (if neg then - v else v), r3))))"

text \<open>
  \<open>scan_once\<close> reads one value at the head of the text; \<open>scan_members\<close> reads the pairs
  of an object from the quote of a key on, \<open>scan_elements\<close> the elements of an array.
  The second argument is the number of containers that may still be entered. An object
  becomes a \<open>dict\<close>: a repeated key keeps its first place and its last value.
\<close>

fun scan_once :: "nat \<Rightarrow> nat \<Rightarrow> string \<Rightarrow> py_error + pyval \<times> string"
  and scan_members ::
    "nat \<Rightarrow> nat \<Rightarrow> (string \<times> pyval) list \<Rightarrow> string
       \<Rightarrow> py_error + (string \<times> pyval) list \<times> string"
  and scan_elements ::
    "nat \<Rightarrow> nat \<Rightarrow> pyval list \<Rightarrow> string \<Rightarrow> py_error + pyval list \<times> string"
where
  "scan_once 0 depth s = Inl JSONDecodeError"
| "scan_once (Suc n) depth [] = Inl JSONDecodeError"
| "scan_once (Suc n) depth (c # cs) =
     (if c = CHR 0x22 then
        (case scanstring [] cs of
           None \<Rightarrow> Inl JSONDecodeError
         | Some (str, rest) \<Rightarrow> Inr (PStr str, rest))
      else if c = CHR ''{'' then
        (case depth of
           0 \<Rightarrow> Inl RecursionError
         | Suc depth' \<Rightarrow>
             (case skip_ws cs of
                [] \<Rightarrow> Inl JSONDecodeError
              | d # rest \<Rightarrow>
                  if d = CHR ''}'' then Inr (PDict [], rest)
                  else if d = CHR 0x22 then
                    (case scan_members n depth' [] (d # rest) of
                       Inl e \<Rightarrow> Inl e
                     | Inr (kvs, rest') \<Rightarrow> Inr (PDict kvs, rest'))
                  else Inl JSONDecodeError))
      else if c = CHR ''['' then
        (case depth of
           0 \<Rightarrow> Inl RecursionError
         | Suc depth' \<Rightarrow>
             (case skip_ws cs of
                [] \<Rightarrow> Inl JSONDecodeError
              | d # rest \<Rightarrow>
                  if d = CHR '']'' then Inr (PList [], rest)
                  else
                    (case scan_elements n depth' [] (d # rest) of
                       Inl e \<Rightarrow> Inl e
                     | Inr (vs, rest') \<Rightarrow> Inr (PList vs, rest'))))
      else if take 4 (c # cs) = ''null'' then Inr (PNone, drop 4 (c # cs))
      else if take 4 (c # cs) = ''true'' then Inr (PBool True, drop 4 (c # cs))
      else if take 5 (c # cs) = ''false'' then Inr (PBool False, drop 5 (c # cs))
      else scan_number (c # cs))"
| "scan_members 0 depth acc s = Inl JSONDecodeError"
| "scan_members (Suc n) depth acc [] = Inl JSONDecodeError"
| "scan_members (Suc n) depth acc (q # cs) =
     (case scanstring [] cs of
        None \<Rightarrow> Inl JSONDecodeError
      | Some (key, r1) \<Rightarrow>
          (case skip_ws r1 of
             [] \<Rightarrow> Inl JSONDecodeError
           | colon # r2 \<Rightarrow>
               if colon \<noteq> CHR '':'' then Inl JSONDecodeError
               else
                 (case scan_once n depth (skip_ws r2) of
                    Inl e \<Rightarrow> Inl e
                  | Inr (v, r3) \<Rightarrow>
                      (case skip_ws r3 of
                         [] \<Rightarrow> Inl JSONDecodeError
                       | d # r4 \<Rightarrow>
                           if d = CHR ''}'' then Inr (dict_set acc key v, r4)
                           else if d = CHR '','' then
                             (case skip_ws r4 of
                                [] \<Rightarrow> Inl JSONDecodeError
                              | q' # r5 \<Rightarrow>
                                  if q' = CHR 0x22
                                  then scan_members n depth (dict_set acc key v) (q' # r5)
                                  else Inl JSONDecodeError)
                           else Inl JSONDecodeError))))"
| "scan_elements 0 depth acc s = Inl JSONDecodeError"
| "scan_elements (Suc n) depth acc s =
     (case scan_once n depth s of
        Inl e \<Rightarrow> Inl e
      | Inr (v, r1) \<Rightarrow>
          (case skip_ws r1 of
             [] \<Rightarrow> Inl JSONDecodeError
           | d # r2 \<Rightarrow>
               if d = CHR '']'' then Inr (acc @ [v], r2)
               else if d = CHR '','' then scan_elements n depth (acc @ [v]) (skip_ws r2)
               else Inl JSONDecodeError))"

text \<open>
  \<open>json.loads(s)\<close>: one value between optional whitespace, and nothing after it.
\<close>

definition json_loads :: "string \<Rightarrow> py_error + pyval" where
  "json_loads s =
     (case scan_once (2 * length s + 2) recursion_limit (skip_ws s) of
        Inl e \<Rightarrow> Inl e
      | Inr (v, rest) \<Rightarrow> if skip_ws rest = [] then Inr v else Inl JSONDecodeError)"

subsection \<open>\<open>_parse_model_output\<close>\<close>

text \<open>The text with the markdown fence and a leading \<open>json\<close> tag removed.\<close>

definition clean_markdown :: "string \<Rightarrow> string" where
  "clean_markdown raw_text =
     (let text = str_strip raw_text in
      if str_startswith text ''```'' then
        (let lines = str_split text [CHR 0x0A];
             text1 = (if length lines > 2 then str_join [CHR 0x0A] (butlast (tl lines))
                      else text)
         in if str_startswith text1 ''json'' then str_strip (drop 4 text1) else text1)
      else text)"

text \<open>The dict returned when nothing parses.\<close>

definition error_result :: "string \<Rightarrow> pyval" where
  "error_result raw_text =
     PDict [(''make_miss'', PNone),
            (''range'', PNone),
            (''confidence'', PFloat 0),
            (''tips'', PList []),
            (''error'', PStr ''Failed to parse JSON''),
            (''raw_output'', PStr raw_text)]"

text \<open>
  \<open>_parse_model_output\<close>, for a decoder \<open>loads\<close>. Both \<open>try\<close> blocks catch
  \<open>json.JSONDecodeError\<close> and nothing else: any other exception of the decoder leaves the
  function. The second attempt parses the text from the first \<open>{\<close> to the last \<open>}\<close> of
  the raw text.
\<close>

definition parse_model_output ::
  "(string \<Rightarrow> py_error + pyval) \<Rightarrow> string \<Rightarrow> py_error + pyval" where
  "parse_model_output loads raw_text =
     (case loads (clean_markdown raw_text) of
        Inr v \<Rightarrow> Inr v
      | Inl e \<Rightarrow>
          if e \<noteq> JSONDecodeError then Inl e
          else
            (let start_idx = str_find raw_text ''{'';
                 end_idx = str_rfind raw_text ''}'' + 1
             in if start_idx \<ge> 0 \<and> end_idx > start_idx then
                  (case loads (slice raw_text start_idx end_idx) of
                     Inr v \<Rightarrow> Inr v
                   | Inl e' \<Rightarrow>
                       if e' \<noteq> JSONDecodeError then Inl e'
                       else Inr (error_result raw_text))
                else Inr (error_result raw_text)))"

text \<open>The fenced answer of the specification's round-trip example.\<close>

definition fenced_example :: string where
  \<open>fenced_example =
     ''```json\<newline>{"make_miss":"MAKE","range":"LAY_UP","confidence":0.9,"tips":["a","b","c"]}\<newline>```''\<close>

text \<open>\<open>key in d\<close> for a parsed value.\<close>

fun py_has_key :: "pyval \<Rightarrow> string \<Rightarrow> bool" where
  "py_has_key (PDict kvs) k = (k \<in> fst ` set kvs)"
| "py_has_key _ k = False"

subsection \<open>\<open>_calculate_metrics\<close>\<close>

text \<open>
  One element of \<open>results\<close>: the clip, the two ground-truth labels of
  \<open>entry['ground_truth']\<close>, the parsed prediction, the measured time and the estimated
  cost, and the configuration of the run.
\<close>

record sample_result =
  r_clip_id :: string
  r_gt_shot_type :: "string option"
  r_gt_result :: "string option"
  r_prediction :: pyval
  r_inference_time_s :: real
  r_cost_usd :: real
  r_model_name :: string
  r_fps :: int
  r_media_resolution :: string

text \<open>The local variables of the loop.\<close>

record counters =
  shot_type_correct :: nat
  result_correct :: nat
  both_correct :: nat
  valid :: nat
  shot_type_confusion :: "(string \<times> nat) list"
  result_confusion :: "(string \<times> nat) list"
  confidence_scores :: "pyval list"

definition initial_counters :: counters where
  "initial_counters =
     \<lparr> shot_type_correct = 0, result_correct = 0, both_correct = 0, valid = 0,
       shot_type_confusion = [], result_confusion = [], confidence_scores = [] \<rparr>"

text \<open>Truth value of an \<open>Optional[str]\<close>: \<open>None\<close> and the empty string are falsy.\<close>

definition opt_truthy :: "string option \<Rightarrow> bool" where
  "opt_truthy x = (case x of None \<Rightarrow> False | Some s \<Rightarrow> s \<noteq> [])"

text \<open>\<open>d[key] = d.get(key, 0) + 1\<close>\<close>

definition bump :: "(string \<times> nat) list \<Rightarrow> string \<Rightarrow> (string \<times> nat) list" where
  "bump d key = dict_set d key (dict_get_default d key 0 + 1)"

text \<open>
  The part of the loop body after \<open>valid_predictions += 1\<close>, given the normalised
  predictions and the value of \<open>pred.get('confidence')\<close>.
\<close>

definition score_sample ::
  "string option \<Rightarrow> string option \<Rightarrow> string option \<Rightarrow> string option \<Rightarrow> pyval \<Rightarrow> counters
     \<Rightarrow> counters" where
  "score_sample gt_shot_type pred_shot_type gt_result pred_result conf c =
     (let c1 = (if opt_truthy gt_shot_type \<and> opt_truthy pred_shot_type then
                  (let c' = (if gt_shot_type = pred_shot_type
                             then c\<lparr> shot_type_correct := shot_type_correct c + 1 \<rparr>
                             else c)
                   in c'\<lparr> shot_type_confusion :=
                            bump (shot_type_confusion c')
                              (the gt_shot_type @ '' -> '' @ the pred_shot_type) \<rparr>)
                else c);
          c2 = (if opt_truthy gt_result \<and> opt_truthy pred_result then
                  (let c' = (if gt_result = pred_result
                             then c1\<lparr> result_correct := result_correct c1 + 1 \<rparr>
                             else c1)
                   in c'\<lparr> result_confusion :=
                            bump (result_confusion c')
                              (the gt_result @ '' -> '' @ the pred_result) \<rparr>)
                else c1);
          c3 = (if gt_shot_type = pred_shot_type \<and> gt_result = pred_result
                then c2\<lparr> both_correct := both_correct c2 + 1 \<rparr>
                else c2)
      in if conf \<noteq> PNone
         then c3\<lparr> confidence_scores := confidence_scores c3 @ [conf] \<rparr>
         else c3)"

text \<open>
  The loop body. \<open>pred.get\<close> needs a dict; a prediction whose \<open>error\<close> is truthy is
  skipped; the normalisers raise on a truthy value that is not a string.
\<close>

definition metrics_step :: "sample_result \<Rightarrow> counters \<Rightarrow> py_error + counters" where
  "metrics_step result c =
     (let pred = r_prediction result in
      case py_get pred ''error'' of
        Inl e \<Rightarrow> Inl e
      | Inr err \<Rightarrow>
          if truthy err then Inr c
          else
            (let c0 = c\<lparr> valid := valid c + 1 \<rparr> in
             case py_get pred ''range'' of
               Inl e \<Rightarrow> Inl e
             | Inr rng \<Rightarrow>
                 (case as_optional_str rng of
                    Inl e \<Rightarrow> Inl e
                  | Inr rng_str \<Rightarrow>
                      (case py_get pred ''make_miss'' of
                         Inl e \<Rightarrow> Inl e
                       | Inr mm \<Rightarrow>
                           (case as_optional_str mm of
                              Inl e \<Rightarrow> Inl e
                            | Inr mm_str \<Rightarrow>
                                (case py_get pred ''confidence'' of
                                   Inl e \<Rightarrow> Inl e
                                 | Inr conf \<Rightarrow>
                                     Inr (score_sample
                                            (r_gt_shot_type result)
                                            (normalize_shot_type rng_str)
                                            (r_gt_result result)
                                            (normalize_result mm_str)
                                            conf c0)))))))"

fun metrics_loop :: "sample_result list \<Rightarrow> counters \<Rightarrow> py_error + counters" where
  "metrics_loop [] c = Inr c"
| "metrics_loop (result # results) c =
     (case metrics_step result c of
        Inl e \<Rightarrow> Inl e
      | Inr c' \<Rightarrow> metrics_loop results c')"

text \<open>\<open>sum(confidence_scores)\<close>: numbers and booleans add up, anything else is a \<open>TypeError\<close>.\<close>

fun as_number :: "pyval \<Rightarrow> py_error + real" where
  "as_number (PInt i) = Inr (real_of_int i)"
| "as_number (PFloat r) = Inr r"
| "as_number (PBool b) = Inr (if b then 1 else 0)"
| "as_number _ = Inl TypeError"

fun py_sum :: "pyval list \<Rightarrow> py_error + real" where
  "py_sum [] = Inr 0"
| "py_sum (v # vs) =
     (case as_number v of
        Inl e \<Rightarrow> Inl e
      | Inr x \<Rightarrow> (case py_sum vs of Inl e \<Rightarrow> Inl e | Inr s \<Rightarrow> Inr (x + s)))"

record metrics =
  total_samples :: nat
  valid_predictions :: nat
  parse_success_rate :: real
  shot_type_accuracy :: real
  result_accuracy :: real
  both_correct_accuracy :: real
  average_confidence :: real
  shot_type_confusion_matrix :: "(string \<times> nat) list"
  result_confusion_matrix :: "(string \<times> nat) list"

text \<open>\<open>a / b if b else 0\<close> on counters.\<close>

definition ratio :: "nat \<Rightarrow> nat \<Rightarrow> real" where
  "ratio a b = (if b \<noteq> 0 then real a / real b else 0)"

text \<open>
  \<open>_calculate_metrics\<close>: \<open>None\<close> is the empty dict returned for an empty list of results.
\<close>

definition calculate_metrics :: "sample_result list \<Rightarrow> py_error + metrics option" where
  "calculate_metrics results =
     (if results = [] then Inr None
      else
        (case metrics_loop results initial_counters of
           Inl e \<Rightarrow> Inl e
         | Inr c \<Rightarrow>
             (case (if confidence_scores c \<noteq> []
                    then (case py_sum (confidence_scores c) of
                            Inl e \<Rightarrow> Inl e
                          | Inr s \<Rightarrow> Inr (s / real (length (confidence_scores c))))
                    else Inr 0) of
                Inl e \<Rightarrow> Inl e
              | Inr avg \<Rightarrow>
                  Inr (Some
                    \<lparr> total_samples = length results,
                      valid_predictions = valid c,
                      parse_success_rate = ratio (valid c) (length results),
                      shot_type_accuracy = ratio (shot_type_correct c) (valid c),
                      result_accuracy = ratio (result_correct c) (valid c),
                      both_correct_accuracy = ratio (both_correct c) (valid c),
                      average_confidence = avg,
                      shot_type_confusion_matrix = shot_type_confusion c,
                      result_confusion_matrix = result_confusion c \<rparr>))))"

subsection \<open>\<open>evaluate_model\<close>\<close>

text \<open>\<open>ground_truth_data[:max_samples]\<close>, taken only when \<open>max_samples\<close> is truthy.\<close>

definition limit_samples :: "int option \<Rightarrow> 'a list \<Rightarrow> 'a list" where
  "limit_samples max_samples xs =
     (case max_samples of
        None \<Rightarrow> xs
      | Some n \<Rightarrow>
          if n = 0 then xs
          else if 0 < n then take (nat n) xs
          else take (length xs - nat (- n)) xs)"

text \<open>
  The loop over the entries. \<open>exists\<close> tells whether the local video is there;
  \<open>run_inference\<close> stands for \<open>_run_inference\<close> under the run's model, prompt, frame rate
  and resolution (the provider call: a prediction with its cost estimate, or an
  exception); \<open>elapsed\<close> is the wall-clock time measured around it. An entry without video
  and an entry whose inference raises add nothing.
\<close>

fun evaluate_loop ::
  "(string \<Rightarrow> bool) \<Rightarrow> (gt_entry \<Rightarrow> py_error + pyval \<times> real) \<Rightarrow> (gt_entry \<Rightarrow> real)
     \<Rightarrow> string \<Rightarrow> int \<Rightarrow> string \<Rightarrow> gt_entry list \<Rightarrow> sample_result list \<times> real
     \<Rightarrow> sample_result list \<times> real" where
  "evaluate_loop exists run_inference elapsed model_name fps media_resolution [] acc = acc"
| "evaluate_loop exists run_inference elapsed model_name fps media_resolution (entry # entries)
       (results, total_cost) =
     (if \<not> exists (e_video_path entry)
      then evaluate_loop exists run_inference elapsed model_name fps media_resolution entries
             (results, total_cost)
      else
        (case run_inference entry of
           Inl e \<Rightarrow>
             evaluate_loop exists run_inference elapsed model_name fps media_resolution entries
               (results, total_cost)
         | Inr (prediction, cost) \<Rightarrow>
             evaluate_loop exists run_inference elapsed model_name fps media_resolution entries
               (results @
                  [\<lparr> r_clip_id = e_clip_id entry,
                     r_gt_shot_type = e_gt_shot_type entry,
                     r_gt_result = e_gt_result entry,
                     r_prediction = prediction,
                     r_inference_time_s = elapsed entry,
                     r_cost_usd = cost,
                     r_model_name = model_name,
                     r_fps = fps,
                     r_media_resolution = media_resolution \<rparr>],
                total_cost + cost)))"

record run =
  run_model_name :: string
  run_total_samples :: nat
  run_total_cost_usd :: real
  run_average_inference_time_s :: real
  run_metrics :: "metrics option"
  run_results :: "sample_result list"

text \<open>
  \<open>evaluate_model\<close>. \<open>_calculate_metrics\<close> and the returned dict stand outside the
  \<open>try\<close> of the loop: an exception of the former and the division by \<open>len(results)\<close> of
  the latter leave the function. Writing the results file is not modelled.
\<close>

definition evaluate_model ::
  "(string \<Rightarrow> bool) \<Rightarrow> (gt_entry \<Rightarrow> py_error + pyval \<times> real) \<Rightarrow> (gt_entry \<Rightarrow> real)
     \<Rightarrow> string \<Rightarrow> gt_entry list \<Rightarrow> int \<Rightarrow> string \<Rightarrow> int option \<Rightarrow> py_error + run" where
  "evaluate_model exists run_inference elapsed model_name ground_truth_data fps
       media_resolution max_samples =
     (let data = limit_samples max_samples ground_truth_data;
          (results, total_cost) =
            evaluate_loop exists run_inference elapsed model_name fps media_resolution data
              ([], 0)
      in case calculate_metrics results of
           Inl e \<Rightarrow> Inl e
         | Inr metrics \<Rightarrow>
             if length results = 0 then Inl ZeroDivisionError
             else Inr
               \<lparr> run_model_name = model_name,
                 run_total_samples = length results,
                 run_total_cost_usd = total_cost,
                 run_average_inference_time_s =
                   sum_list (map r_inference_time_s results) / real (length results),
                 run_metrics = metrics,
                 run_results = results \<rparr>)"

subsection \<open>What the counters of \<open>_calculate_metrics\<close> count\<close>


text \<open>The normalised predictions of a sample, \<open>None\<close> where the code has none.\<close>

definition predicted_shot_type :: "sample_result \<Rightarrow> string option" where
  "predicted_shot_type r =
     (case py_get (r_prediction r) ''range'' of
        Inr v \<Rightarrow> (case as_optional_str v of Inr s \<Rightarrow> normalize_shot_type s | Inl e \<Rightarrow> None)
      | Inl e \<Rightarrow> None)"









subsection \<open>Sample results\<close>

definition sample_with :: "string option \<Rightarrow> string option \<Rightarrow> pyval \<Rightarrow> sample_result" where
  "sample_with gt_shot gt_res prediction =
     \<lparr> r_clip_id = ''clip-1'', r_gt_shot_type = gt_shot, r_gt_result = gt_res,
       r_prediction = prediction, r_inference_time_s = 2, r_cost_usd = 0,
       r_model_name = ''models/gemini-2.5-flash'', r_fps = 24,
       r_media_resolution = ''MEDIUM'' \<rparr>"

definition answer :: "pyval \<Rightarrow> pyval \<Rightarrow> pyval" where
  "answer make_miss rng =
     PDict [(''make_miss'', make_miss), (''range'', rng), (''confidence'', PFloat (9 / 10)),
            (''tips'', PList [])]"






text \<open>
  A clip whose analysis has no shot type (the worker stores null for a range it does
  not know) and whose prediction has a null \<open>range\<close>; the result is predicted right.
\<close>

definition null_shot_type_sample :: sample_result where
  "null_shot_type_sample = sample_with None (Some ''make'') (answer (PStr ''MAKE'') PNone)"

text \<open>The same with both fields null on both sides.\<close>

definition all_null_sample :: sample_result where
  "all_null_sample = sample_with None None (answer PNone PNone)"

text \<open>A prediction whose \<open>range\<close> itself contains the separator of the confusion keys.\<close>

definition arrow_sample :: sample_result where
  "arrow_sample =
     sample_with (Some ''lay_up'') (Some ''make'')
       (answer (PStr ''MAKE'') (PStr ''Jump -> Shot''))"

text \<open>The projections of a result of \<open>_calculate_metrics\<close>.\<close>

definition metric_of :: "(metrics \<Rightarrow> 'a) \<Rightarrow> py_error + metrics option \<Rightarrow> py_error + 'a option" where
  "metric_of f res = map_sum id (map_option f) res"

section \<open>Properties of the string operations\<close>

lemma upper_lower_char: "upper_char (lower_char c) = upper_char c"
  by (auto simp add: upper_char_def lower_char_def is_ascii_lower_def is_ascii_upper_def)

lemma lower_lower_char: "lower_char (lower_char c) = lower_char c"
  by (auto simp add: lower_char_def is_ascii_upper_def)

lemma upper_lower: "str_upper (str_lower s) = str_upper s"
  by (simp add: str_upper_def str_lower_def upper_lower_char)

lemma lower_lower: "str_lower (str_lower s) = str_lower s"
  by (simp add: str_lower_def lower_lower_char)

lemma lower_eq_Nil: "str_lower s = [] \<longleftrightarrow> s = []"
  by (simp add: str_lower_def)

section \<open>Label normalisation is idempotent\<close>

lemma normalize_shot_type_canonical:
  "(k, v) \<in> set shot_type_mapping \<Longrightarrow> normalize_shot_type (Some v) = Some v"
  unfolding shot_type_mapping_def normalize_shot_type_def dict_get_default_def
    str_upper_def str_lower_def
  by (auto simp: upper_char_def lower_char_def is_ascii_lower_def is_ascii_upper_def char_of_def)

lemma normalize_shot_type_idem:
  "normalize_shot_type (normalize_shot_type x) = normalize_shot_type x"
proof (cases x)
  case None
  then show ?thesis by (simp add: normalize_shot_type_def)
next
  case (Some s)
  note x = this
  show ?thesis
  proof (cases "s = []")
    case True
    with x show ?thesis by (simp add: normalize_shot_type_def)
  next
    case False
    show ?thesis
    proof (cases "map_of shot_type_mapping (str_upper s)")
      case None
      with x False show ?thesis
        by (simp add: normalize_shot_type_def dict_get_default_def
            upper_lower lower_lower lower_eq_Nil)
    next
      case (Some v)
      then have "(str_upper s, v) \<in> set shot_type_mapping"
        by (rule map_of_SomeD)
      then have "normalize_shot_type (Some v) = Some v"
        by (rule normalize_shot_type_canonical)
      with Some x False show ?thesis
        by (simp add: normalize_shot_type_def dict_get_default_def)
    qed
  qed
qed

lemma normalize_result_range:
  "normalize_result x = None \<or> normalize_result x = Some ''make''
     \<or> normalize_result x = Some ''miss''"
  by (auto simp: normalize_result_def Let_def split: option.splits)

lemma normalize_result_make: "normalize_result (Some ''make'') = Some ''make''"
  by code_simp

lemma normalize_result_miss: "normalize_result (Some ''miss'') = Some ''miss''"
  by code_simp

lemma normalize_result_idem:
  "normalize_result (normalize_result x) = normalize_result x"
  using normalize_result_range [of x] normalize_result_make normalize_result_miss
  by (auto simp: normalize_result_def)

text \<open>
  Claim C9. Both label normalisers are idempotent: for every input (a string or
  \<open>None\<close>), normalising the output of \<open>_normalize_shot_type\<close> again changes nothing, and
  the same holds for \<open>_normalize_result\<close>. A canonical label, a lower-cased
  passthrough and \<open>None\<close> are all fixed points.
\<close>

theorem normalizers_idempotent:
  "normalize_shot_type (normalize_shot_type x) = normalize_shot_type x
   \<and> normalize_result (normalize_result y) = normalize_result y"
  by (simp add: normalize_shot_type_idem normalize_result_idem)

section \<open>Override resolution on the fallback path\<close>

lemma map_of_dict_set: "map_of (dict_set d k v) = (map_of d)(k \<mapsto> v)"
  by (induction d k v rule: dict_set.induct) auto

lemma dict_get_dict_set:
  "dict_get (dict_set d k v) k' = (if k' = k then Some v else dict_get d k')"
  by (simp add: dict_get_def map_of_dict_set)

lemma keys_dict_set: "fst ` set (dict_set d k v) = insert k (fst ` set d)"
  by (induction d k v rule: dict_set.induct) auto

lemma override_step_get:
  "dict_get (override_step ov d) (aid, f) =
     (if o_analysis_id ov = aid \<and> o_field_name ov = f
      then (case dict_get d (aid, f) of None \<Rightarrow> Some ov | Some cur \<Rightarrow> Some (pick_newer ov cur))
      else dict_get d (aid, f))"
  by (auto simp: override_step_def Let_def dict_get_dict_set pick_newer_def split: option.splits)

lemma fold_override_step_get:
  "dict_get (fold override_step ovs d) (aid, f) =
     (case dict_get d (aid, f) of
        Some cur \<Rightarrow> Some (fold pick_newer (overrides_for ovs aid f) cur)
      | None \<Rightarrow> (case overrides_for ovs aid f of [] \<Rightarrow> None
                  | ov # rest \<Rightarrow> Some (fold pick_newer rest ov)))"
proof (induction ovs arbitrary: d)
  case Nil
  then show ?case by (simp add: overrides_for_def split: option.splits)
next
  case (Cons ov ovs)
  show ?case
    by (simp add: Cons.IH override_step_get overrides_for_def split: option.splits)
qed


lemma newest_override_filter_ne:
  "ms \<noteq> [] \<Longrightarrow> filter (\<lambda>override. o_created_at override = Max (o_created_at ` set ms)) ms \<noteq> []"
proof -
  assume "ms \<noteq> []"
  then have "Max (o_created_at ` set ms) \<in> o_created_at ` set ms"
    by (intro Max_in) auto
  then obtain m where "m \<in> set ms" "o_created_at m = Max (o_created_at ` set ms)"
    by auto
  then show ?thesis
    by (auto simp: filter_empty_conv)
qed

lemma newest_override_in_filter:
  "ms \<noteq> [] \<Longrightarrow> newest_override ms \<in> set (filter (\<lambda>override. o_created_at override = Max (o_created_at ` set ms)) ms)"
  unfolding newest_override_def by (rule hd_in_set) (rule newest_override_filter_ne)

lemma newest_override_in: "ms \<noteq> [] \<Longrightarrow> newest_override ms \<in> set ms"
  using newest_override_in_filter [of ms] by simp

lemma newest_override_created_at:
  "ms \<noteq> [] \<Longrightarrow> o_created_at (newest_override ms) = Max (o_created_at ` set ms)"
  using newest_override_in_filter [of ms] by simp

lemma newest_override_snoc:
  assumes "ms \<noteq> []"
  shows "newest_override (ms @ [x]) = pick_newer x (newest_override ms)"
proof (cases "o_created_at x > o_created_at (newest_override ms)")
  case True
  then have gt: "Max (o_created_at ` set ms) < o_created_at x"
    unfolding newest_override_created_at [OF assms] .
  have mx: "Max (o_created_at ` set (ms @ [x])) = max (o_created_at x) (Max (o_created_at ` set ms))"
    using assms by simp
  have m: "Max (o_created_at ` set (ms @ [x])) = o_created_at x"
    unfolding mx using gt by (intro max_absorb1 less_imp_le)
  have "filter (\<lambda>override. o_created_at override = o_created_at x) ms = []"
  proof -
    have "\<forall>a\<in>set ms. o_created_at a < o_created_at x"
      using gt assms by (simp add: Max_less_iff)
    then show ?thesis by (auto simp: filter_empty_conv)
  qed
  with True m show ?thesis
    by (simp add: pick_newer_def newest_override_def del: set_append)
next
  case False
  then have le: "o_created_at x \<le> Max (o_created_at ` set ms)"
    unfolding newest_override_created_at [OF assms] by (simp only: not_less)
  have mx: "Max (o_created_at ` set (ms @ [x])) = max (o_created_at x) (Max (o_created_at ` set ms))"
    using assms by simp
  have m: "Max (o_created_at ` set (ms @ [x])) = Max (o_created_at ` set ms)"
    unfolding mx using le by (rule max_absorb2)
  have "newest_override (ms @ [x]) = newest_override ms"
    unfolding newest_override_def m using newest_override_filter_ne [OF assms] by simp
  with False show ?thesis
    by (simp add: pick_newer_def)
qed

lemma fold_pick_newer_newest_override:
  "fold pick_newer rest ov = newest_override (ov # rest)"
proof (induction rest rule: rev_induct)
  case Nil
  then show ?case by (simp add: newest_override_def)
next
  case (snoc x rest)
  have "newest_override ((ov # rest) @ [x]) = pick_newer x (newest_override (ov # rest))"
    by (rule newest_override_snoc) simp
  with snoc show ?case by simp
qed


lemma find_append:
  "List.find P (xs @ ys) = (case List.find P xs of Some x \<Rightarrow> Some x | None \<Rightarrow> List.find P ys)"
  by (induction xs) auto

lemma find_Some_mem: "List.find P xs = Some x \<Longrightarrow> x \<in> set xs \<and> P x"
  by (induction xs) (auto split: if_splits)

lemma dict_get_Nil: "dict_get [] k = None"
  by (simp add: dict_get_def)

lemma fold_dict_set_get:
  "dict_get (fold (\<lambda>x d. dict_set d (k x) x) xs d) key =
     (case List.find (\<lambda>x. k x = key) (rev xs) of Some x \<Rightarrow> Some x | None \<Rightarrow> dict_get d key)"
proof (induction xs arbitrary: d)
  case Nil
  then show ?case by simp
next
  case (Cons x xs)
  show ?case
    by (simp add: Cons.IH dict_get_dict_set find_append split: option.splits)
qed

lemma fold_dict_set_keys:
  "fst ` set (fold (\<lambda>x d. dict_set d (k x) x) xs d) = k ` set xs \<union> fst ` set d"
  by (induction xs arbitrary: d) (auto simp: keys_dict_set)

lemma fold_dict_set_items:
  "(key, v) \<in> set (fold (\<lambda>x d. dict_set d (k x) x) xs d) \<Longrightarrow>
     (v \<in> set xs \<and> k v = key) \<or> (key, v) \<in> set d"
proof (induction xs arbitrary: d)
  case Nil
  then show ?case by simp
next
  case (Cons x xs)
  have "(key, v) \<in> set (dict_set d (k x) x) \<Longrightarrow> (v = x \<and> k x = key) \<or> (key, v) \<in> set d" for d
    by (induction d "k x" x rule: dict_set.induct) (auto split: if_splits)
  with Cons show ?case by fastforce
qed

lemma build_analysis_dict_get:
  "dict_get (build_analysis_dict analysis_data) cid = Some a \<Longrightarrow>
     a \<in> set analysis_data \<and> a_clip_id a = cid"
  by (auto simp: build_analysis_dict_def fold_dict_set_get dict_get_Nil
      split: option.splits dest: find_Some_mem)

lemma build_overrides_dict_get:
  "dict_get (build_overrides_dict overrides_data) (aid, field) =
     (if overrides_for overrides_data aid field = [] then None
      else Some (newest_override (overrides_for overrides_data aid field)))"
  by (simp add: build_overrides_dict_def fold_override_step_get dict_get_Nil
      fold_pick_newer_newest_override split: list.splits)

lemma resolve_field_build:
  "resolve_field (build_overrides_dict overrides_data) aid field original =
     (if overrides_for overrides_data aid field = [] then original
      else o_override_value (newest_override (overrides_for overrides_data aid field)))"
  by (simp add: resolve_field_def build_overrides_dict_get)

lemma combine_loop_mem:
  "r \<in> set (combine_loop ad od items) \<Longrightarrow>
     \<exists>cid clip a. (cid, clip) \<in> set items \<and> dict_get ad cid = Some a
        \<and> r = combined od cid clip a"
  by (induction ad od items rule: combine_loop.induct) (auto split: option.splits)

lemma combine_loop_intro:
  "(cid, clip) \<in> set items \<Longrightarrow> dict_get ad cid = Some a \<Longrightarrow>
     combined od cid clip a \<in> set (combine_loop ad od items)"
  by (induction ad od items rule: combine_loop.induct) (auto split: option.splits)

section \<open>The fallback against the joined query\<close>

lemma sorted_le_last: "sorted xs \<Longrightarrow> x \<in> set xs \<Longrightarrow> x \<le> last xs"
  by (induction xs) auto

lemma set_order_by_desc: "set (order_by_desc k rows) = set rows"
  by (simp add: order_by_desc_def)

lemma hd_order_by_desc:
  assumes "rows \<noteq> []"
  shows "hd (order_by_desc k rows) \<in> set rows"
    and "k (hd (order_by_desc k rows)) = Max (k ` set rows)"
proof -
  let ?s = "sort_key k rows"
  have ne: "?s \<noteq> []" using assms by (metis length_sort list.size(3) length_0_conv)
  have h: "hd (order_by_desc k rows) = last ?s"
    using ne by (simp add: order_by_desc_def hd_rev)
  have "last ?s \<in> set ?s" using ne by (rule last_in_set)
  then show mem: "hd (order_by_desc k rows) \<in> set rows" by (simp add: h)
  have srt: "sorted (map k ?s)" by simp
  have ub: "k x \<le> k (last ?s)" if "x \<in> set rows" for x
  proof -
    from that have "k x \<in> set (map k ?s)" by simp
    with srt have "k x \<le> last (map k ?s)" by (rule sorted_le_last)
    then show ?thesis using ne by (simp add: last_map)
  qed
  show "k (hd (order_by_desc k rows)) = Max (k ` set rows)"
  proof (rule sym, rule Max_eqI)
    show "finite (k ` set rows)" by simp
    show "y \<le> k (hd (order_by_desc k rows))" if "y \<in> k ` set rows" for y
      using that ub h by auto
    show "k (hd (order_by_desc k rows)) \<in> k ` set rows"
      using mem by simp
  qed
qed

lemma set_joined_query:
  "set (joined_query clips analysis ovs) =
     {select_row ovs c a | c a. c \<in> set clips \<and> a \<in> set analysis
        \<and> c_id c = a_clip_id a \<and> a_status a = ''success''}"
  by (auto simp: joined_query_def set_order_by_desc)

lemma latest_override_value_eq:
  assumes non_null: "\<forall>ao\<in>set ovs. o_override_value ao \<noteq> None"
    and no_ties: "\<forall>ao\<in>set ovs. \<forall>ao'\<in>set ovs.
        o_analysis_id ao = o_analysis_id ao' \<and> o_field_name ao = o_field_name ao'
        \<and> o_created_at ao = o_created_at ao' \<longrightarrow> o_override_value ao = o_override_value ao'"
  shows "coalesce (latest_override_value ovs aid f) orig
           = resolve_field (build_overrides_dict ovs) aid f orig"
proof (cases "overrides_for ovs aid f = []")
  case True
  then show ?thesis
    by (simp add: latest_override_value_def resolve_field_build coalesce_def
        overrides_for_def order_by_desc_def)
next
  case False
  let ?ms = "overrides_for ovs aid f"
  let ?l = "hd (order_by_desc o_created_at ?ms)"
  let ?n = "newest_override ?ms"
  have l: "?l \<in> set ?ms" "o_created_at ?l = Max (o_created_at ` set ?ms)"
    using hd_order_by_desc [OF False] by auto
  have n: "?n \<in> set ?ms" "o_created_at ?n = Max (o_created_at ` set ?ms)"
    using False by (auto simp: newest_override_in newest_override_created_at)
  have keys: "x \<in> set ovs \<and> o_analysis_id x = aid \<and> o_field_name x = f" if "x \<in> set ?ms" for x
    using that by (simp add: overrides_for_def)
  have same: "o_override_value ?l = o_override_value ?n"
    using no_ties keys [OF l(1)] keys [OF n(1)] l(2) n(2) by metis
  have nn: "o_override_value ?n \<noteq> None"
    using non_null keys [OF n(1)] by blast
  have ne: "order_by_desc o_created_at ?ms \<noteq> []"
    using False set_order_by_desc [of o_created_at ?ms] by (metis set_empty)
  have "latest_override_value ovs aid f = o_override_value ?l"
    using ne by (simp add: latest_override_value_def overrides_for_def split: list.splits)
  with same nn False show ?thesis
    by (auto simp: resolve_field_build coalesce_def)
qed

lemma build_analysis_dict_get_iff:
  assumes "\<forall>a\<in>set S. \<forall>a'\<in>set S. a_clip_id a = a_clip_id a' \<longrightarrow> a = a'"
  shows "dict_get (build_analysis_dict S) cid = Some a \<longleftrightarrow> a \<in> set S \<and> a_clip_id a = cid"
proof
  assume "dict_get (build_analysis_dict S) cid = Some a"
  then show "a \<in> set S \<and> a_clip_id a = cid" by (rule build_analysis_dict_get)
next
  assume a: "a \<in> set S \<and> a_clip_id a = cid"
  then have "List.find (\<lambda>x. a_clip_id x = cid) (rev S) \<noteq> None"
    by (auto simp: find_None_iff)
  then obtain a' where f: "List.find (\<lambda>x. a_clip_id x = cid) (rev S) = Some a'" by auto
  then have "a' \<in> set S \<and> a_clip_id a' = cid" by (auto dest: find_Some_mem)
  with a assms have "a' = a" by metis
  with f show "dict_get (build_analysis_dict S) cid = Some a"
    by (simp add: build_analysis_dict_def fold_dict_set_get)
qed

lemma build_clips_dict_item:
  "(cid, clip) \<in> set (build_clips_dict clips) \<Longrightarrow> clip \<in> set clips \<and> c_id clip = cid"
  unfolding build_clips_dict_def by (drule fold_dict_set_items) simp

lemma build_clips_dict_key:
  "c \<in> set clips \<Longrightarrow> \<exists>clip. (c_id c, clip) \<in> set (build_clips_dict clips)"
proof -
  assume "c \<in> set clips"
  then have "c_id c \<in> fst ` set (build_clips_dict clips)"
    by (simp add: build_clips_dict_def fold_dict_set_keys)
  then show ?thesis by force
qed

lemma entry_of_combined:
  "entry_of (combined od cid clip a) =
     (cid, resolve_field od (a_id a) ''shot_type'' (a_shot_type a),
           resolve_field od (a_id a) ''result'' (a_result a))"
  by (simp add: entry_of_def combined_def)

lemma entry_of_select_row:
  "entry_of (select_row ovs c a) =
     (c_id c, coalesce (latest_override_value ovs (a_id a) ''shot_type'') (a_shot_type a),
              coalesce (latest_override_value ovs (a_id a) ''result'') (a_result a))"
  by (simp add: entry_of_def select_row_def)

text \<open>
  Claim C2, amended. The fallback reconstruction and the joined query give the same set
  of ground-truth entries (clip id, resolved shot type, resolved result) over the same
  rows whenever (1) no clip has two distinct successful analyses, (2) no
  \<open>override_value\<close> is null, and (3) overrides of one analysis and field that carry the
  same \<open>created_at\<close> carry the same value. Without (1) the fallback keeps only the
  last-read analysis of a clip where the join returns one row per analysis; without (2)
  \<open>COALESCE\<close> falls back to the analysis value where the fallback returns the null;
  without (3) the row that \<open>ORDER BY ... LIMIT 1\<close> returns is the database's choice.
\<close>

theorem fallback_equivalence:
  assumes one_analysis:
      "\<forall>a\<in>set analysis. \<forall>a'\<in>set analysis.
         a_status a = ''success'' \<and> a_status a' = ''success'' \<and> a_clip_id a = a_clip_id a'
         \<longrightarrow> a = a'"
    and non_null: "\<forall>ao\<in>set ovs. o_override_value ao \<noteq> None"
    and no_ties: "\<forall>ao\<in>set ovs. \<forall>ao'\<in>set ovs.
        o_analysis_id ao = o_analysis_id ao' \<and> o_field_name ao = o_field_name ao'
        \<and> o_created_at ao = o_created_at ao' \<longrightarrow> o_override_value ao = o_override_value ao'"
  shows "entry_of ` set (fallback_dataset clips analysis ovs)
           = entry_of ` set (joined_query clips analysis ovs)"
proof -
  let ?S = "filter (\<lambda>a. a_status a = ''success'') analysis"
  let ?od = "build_overrides_dict ovs"
  have uniq: "\<forall>a\<in>set ?S. \<forall>a'\<in>set ?S. a_clip_id a = a_clip_id a' \<longrightarrow> a = a'"
    using one_analysis by auto
  note get = build_analysis_dict_get_iff [OF uniq]
  note co = latest_override_value_eq [OF non_null no_ties]
  show ?thesis
  proof (intro set_eqI iffI)
    fix e assume "e \<in> entry_of ` set (fallback_dataset clips analysis ovs)"
    then obtain r where r: "r \<in> set (fallback_dataset clips analysis ovs)" and e: "e = entry_of r"
      by auto
    from r obtain cid clip a where
      it: "(cid, clip) \<in> set (build_clips_dict clips)"
      and a: "dict_get (build_analysis_dict ?S) cid = Some a"
      and rc: "r = combined ?od cid clip a"
      by (auto simp: fallback_dataset_def process_fallback_data_def Let_def dest: combine_loop_mem)
    from it have c: "clip \<in> set clips" "c_id clip = cid" by (auto dest: build_clips_dict_item)
    from a have a': "a \<in> set analysis" "a_status a = ''success''" "a_clip_id a = cid"
      by (auto simp: get)
    have "e = entry_of (select_row ovs clip a)"
      by (simp add: e rc entry_of_combined entry_of_select_row co c)
    moreover have "select_row ovs clip a \<in> set (joined_query clips analysis ovs)"
      unfolding set_joined_query mem_Collect_eq
      by (rule exI [of _ clip], rule exI [of _ a]) (use c a' in simp)
    ultimately show "e \<in> entry_of ` set (joined_query clips analysis ovs)" by blast
  next
    fix e assume "e \<in> entry_of ` set (joined_query clips analysis ovs)"
    then obtain c a where c: "c \<in> set clips" and a: "a \<in> set analysis"
      "c_id c = a_clip_id a" "a_status a = ''success''" and e: "e = entry_of (select_row ovs c a)"
      by (auto simp: set_joined_query)
    from c obtain clip where it: "(c_id c, clip) \<in> set (build_clips_dict clips)"
      by (auto dest: build_clips_dict_key)
    from a have g: "dict_get (build_analysis_dict ?S) (c_id c) = Some a"
      by (simp add: get)
    have "combined ?od (c_id c) clip a \<in> set (fallback_dataset clips analysis ovs)"
      unfolding fallback_dataset_def process_fallback_data_def Let_def
      using it g by (rule combine_loop_intro)
    moreover have "e = entry_of (combined ?od (c_id c) clip a)"
      by (simp add: e entry_of_combined entry_of_select_row co)
    ultimately show "e \<in> entry_of ` set (fallback_dataset clips analysis ovs)" by blast
  qed
qed


lemmas sample_defs =
  sample_clip_def sample_analysis_def second_analysis_def sample_overrides_def
  sample_override_def sample_row_def

lemmas fallback_defs =
  fallback_dataset_def process_fallback_data_def build_clips_dict_def build_analysis_dict_def
  build_overrides_dict_def override_step_def dict_get_def combined_def resolve_field_def

lemmas query_defs =
  joined_query_def select_row_def latest_override_value_def order_by_desc_def coalesce_def

lemma sample_joined_query:
  "joined_query [sample_clip] [sample_analysis] sample_overrides = [sample_row]"
  by (simp add: query_defs sample_defs)

text \<open>The sample tables satisfy the three conditions; both paths give the one entry.\<close>

theorem fallback_equivalence_witness:
  "entry_of ` set (fallback_dataset [sample_clip] [sample_analysis] sample_overrides)
     = entry_of ` set (joined_query [sample_clip] [sample_analysis] sample_overrides)
   \<and> entry_of ` set (joined_query [sample_clip] [sample_analysis] sample_overrides)
     = {(''clip-1'', Some ''three_pointer'', Some ''make'')}"
proof -
  have h1: "\<forall>a\<in>set [sample_analysis]. \<forall>a'\<in>set [sample_analysis].
         a_status a = ''success'' \<and> a_status a' = ''success'' \<and> a_clip_id a = a_clip_id a'
         \<longrightarrow> a = a'"
    by simp
  have h2: "\<forall>ao\<in>set sample_overrides. o_override_value ao \<noteq> None"
    by (simp add: sample_defs)
  have h3: "\<forall>ao\<in>set sample_overrides. \<forall>ao'\<in>set sample_overrides.
        o_analysis_id ao = o_analysis_id ao' \<and> o_field_name ao = o_field_name ao'
        \<and> o_created_at ao = o_created_at ao' \<longrightarrow> o_override_value ao = o_override_value ao'"
    by (simp add: sample_defs)
  have "entry_of ` set (joined_query [sample_clip] [sample_analysis] sample_overrides)
     = {(''clip-1'', Some ''three_pointer'', Some ''make'')}"
    by (simp add: sample_joined_query entry_of_def sample_row_def)
  with fallback_equivalence [OF h1 h2 h3, of "[sample_clip]"] show ?thesis
    by simp
qed

text \<open>
  The claim as stated, for every collection of rows, fails: on one clip with two
  successful analyses (the fallback returns one entry, the query two); on an override
  whose value is null; and on two overrides of the same field with the same
  \<open>created_at\<close>, where the fallback keeps the first read and the sort of the model
  returns the other.
\<close>

theorem fallback_equivalence_counterexample:
  "entry_of ` set (fallback_dataset [sample_clip] [sample_analysis, second_analysis] [])
     \<noteq> entry_of ` set (joined_query [sample_clip] [sample_analysis, second_analysis] [])
   \<and> entry_of ` set (fallback_dataset [sample_clip] [sample_analysis]
                       [sample_override ''shot_type'' None 20])
     \<noteq> entry_of ` set (joined_query [sample_clip] [sample_analysis]
                         [sample_override ''shot_type'' None 20])
   \<and> entry_of ` set (fallback_dataset [sample_clip] [sample_analysis]
                       [sample_override ''shot_type'' (Some ''mid_range'') 20,
                        sample_override ''shot_type'' (Some ''in_paint'') 20])
     \<noteq> entry_of ` set (joined_query [sample_clip] [sample_analysis]
                       [sample_override ''shot_type'' (Some ''mid_range'') 20,
                        sample_override ''shot_type'' (Some ''in_paint'') 20])"
  by (simp add: fallback_defs query_defs sample_defs entry_of_def)

text \<open>The entries behind the three inequalities.\<close>

lemma diverging_entries:
  "entry_of ` set (fallback_dataset [sample_clip] [sample_analysis, second_analysis] [])
     = {(''clip-1'', Some ''mid_range'', Some ''make'')}"
  "entry_of ` set (joined_query [sample_clip] [sample_analysis, second_analysis] [])
     = {(''clip-1'', Some ''lay_up'', Some ''make''), (''clip-1'', Some ''mid_range'', Some ''make'')}"
  "map entry_of (fallback_dataset [sample_clip] [sample_analysis]
                       [sample_override ''shot_type'' None 20]) = [(''clip-1'', None, Some ''make'')]"
  "map entry_of (joined_query [sample_clip] [sample_analysis]
                       [sample_override ''shot_type'' None 20]) = [(''clip-1'', Some ''lay_up'', Some ''make'')]"
  "map entry_of (fallback_dataset [sample_clip] [sample_analysis]
                       [sample_override ''shot_type'' (Some ''mid_range'') 20,
                        sample_override ''shot_type'' (Some ''in_paint'') 20]) = [(''clip-1'', Some ''mid_range'', Some ''make'')]"
  "map entry_of (joined_query [sample_clip] [sample_analysis]
                       [sample_override ''shot_type'' (Some ''mid_range'') 20,
                        sample_override ''shot_type'' (Some ''in_paint'') 20]) = [(''clip-1'', Some ''in_paint'', Some ''make'')]"
  by (auto simp add: fallback_defs query_defs sample_defs entry_of_def)

section \<open>Override resolution on both paths\<close>














section \<open>Dataset statistics\<close>

lemma fold_stats_step:
  "has_user_corrections (fold (stats_step ex) es st)
     = has_user_corrections st + length (filter is_corrected es)
   \<and> average_duration (fold (stats_step ex) es st)
     = average_duration st + sum_list (map e_duration_s es)
   \<and> total_clips (fold (stats_step ex) es st) = total_clips st"
  by (induction es arbitrary: st) (auto simp: stats_step_def Let_def is_corrected_def)

text \<open>
  Claim C10. \<open>get_dataset_stats\<close> returns the statistics only for a snapshot that
  exists and is not empty, and then \<open>correction_rate\<close> is \<open>has_user_corrections / total_clips\<close>
  and \<open>average_duration\<close> is the sum of the durations over \<open>total_clips\<close>. For a snapshot
  that exists and holds no entry the divisions after the loop divide by zero and the
  function raises \<open>ZeroDivisionError\<close>; the guarded error return covers the missing file
  only.
\<close>

theorem dataset_stats_division:
  "get_dataset_stats ex None = Inr NoDataset
   \<and> get_dataset_stats ex (Some []) = Inl ZeroDivisionError
   \<and> (ground_truth \<noteq> [] \<longrightarrow>
        (\<exists>st. get_dataset_stats ex (Some ground_truth) = Inr (Stats st)
           \<and> total_clips st = length ground_truth
           \<and> has_user_corrections st = length (filter is_corrected ground_truth)
           \<and> correction_rate st = real (has_user_corrections st) / real (total_clips st)
           \<and> average_duration st
               = sum_list (map e_duration_s ground_truth) / real (total_clips st)))
   \<and> (get_dataset_stats ex file = Inr (Stats st') \<longrightarrow>
        (\<exists>entries. file = Some entries \<and> entries \<noteq> []))"
  by (auto simp: get_dataset_stats_def load_ground_truth_def Let_def fold_stats_step
      initial_stats_def split: option.splits if_splits)

text \<open>A snapshot of one corrected entry, and the empty snapshot.\<close>

theorem dataset_stats_division_witness:
  "get_dataset_stats (\<lambda>p. True) (Some []) = Inl ZeroDivisionError
   \<and> (\<exists>st. get_dataset_stats (\<lambda>p. True) (Some [sample_entry]) = Inr (Stats st)
         \<and> total_clips st = 1 \<and> has_user_corrections st = 1
         \<and> correction_rate st = 1 \<and> average_duration st = 4)"
  using dataset_stats_division [of "\<lambda>p. True" "[sample_entry]" "Some [sample_entry]"]
  by (auto simp: is_corrected_def sample_entry_def)

section \<open>Parsing the model output\<close>















text \<open>
  Claim C7. \<open>_parse_model_output\<close> applied to the fenced answer
  \<open>```json\n{"make_miss":"MAKE","range":"LAY_UP","confidence":0.9,"tips":["a","b","c"]}\n```\<close>
  returns the parsed object with exactly the four keys \<open>make_miss\<close>, \<open>range\<close>,
  \<open>confidence\<close> and \<open>tips\<close> and their values, and no \<open>error\<close> key.
\<close>

theorem parse_fenced_example:
  "parse_model_output json_loads fenced_example =
     Inr (PDict [(''make_miss'', PStr ''MAKE''),
                 (''range'', PStr ''LAY_UP''),
                 (''confidence'', PFloat (9 / 10)),
                 (''tips'', PList [PStr ''a'', PStr ''b'', PStr ''c''])])
   \<and> map_sum id (\<lambda>v. py_has_key v ''error'') (parse_model_output json_loads fenced_example)
       = Inr False"
proof -
  have "parse_model_output json_loads fenced_example =
     Inr (PDict [(''make_miss'', PStr ''MAKE''),
                 (''range'', PStr ''LAY_UP''),
                 (''confidence'', PFloat (9 / 10)),
                 (''tips'', PList [PStr ''a'', PStr ''b'', PStr ''c''])])"
    by code_simp
  then show ?thesis by simp
qed

section \<open>Run metrics\<close>













text \<open>
  Claim C4. The shot-type and result counters require both sides of their field to be
  non-null (see \<open>shot_type_hit\<close> and \<open>result_hit\<close> in the theorem above); \<open>both_correct\<close>
  is compared without that guard. A sample whose ground-truth shot type and predicted
  range are both null, with the result predicted right, counts for
  \<open>both_correct_accuracy\<close> and not for \<open>shot_type_accuracy\<close>; so does a sample with
  every label null on both sides.
\<close>

theorem both_correct_counts_null_fields:
  "r_gt_shot_type null_shot_type_sample = None
   \<and> predicted_shot_type null_shot_type_sample = None
   \<and> metric_of shot_type_accuracy (calculate_metrics [null_shot_type_sample]) = Inr (Some 0)
   \<and> metric_of both_correct_accuracy (calculate_metrics [null_shot_type_sample]) = Inr (Some 1)
   \<and> metric_of both_correct_accuracy (calculate_metrics [all_null_sample]) = Inr (Some 1)"
  by code_simp

section \<open>Confusion matrix\<close>

text \<open>
  Claim C8. The example of the claim gives \<open>[[3, 1], [0, 0]]\<close>. A key with the separator
  twice is not dropped: the tuple assignment raises \<open>ValueError\<close>. Such a key is what
  \<open>_calculate_metrics\<close> records for a predicted range that contains the separator.
\<close>

theorem confusion_matrix_unpack_error:
  "build_confusion_matrix [(''make -> make'', 3), (''make -> miss'', 1)] results_labels
     = Inr ([[3, 1], [0, 0]], [''make'', ''miss''])
   \<and> metric_of shot_type_confusion_matrix (calculate_metrics [arrow_sample])
     = Inr (Some [(''lay_up -> jump -> shot'', 1)])
   \<and> build_confusion_matrix [(''lay_up -> jump -> shot'', 1)] shot_types = Inl ValueError"
  by code_simp

section \<open>Running an evaluation\<close>

lemma evaluate_loop_none:
  assumes "\<forall>e\<in>set entries. \<not> ex (e_video_path e) \<or> isl (run_inference e)"
  shows "evaluate_loop ex run_inference elapsed model_name fps media_resolution entries acc
           = acc"
  using assms
proof (induction entries)
  case Nil
  then show ?case by simp
next
  case (Cons e entries)
  obtain results total_cost where acc: "acc = (results, total_cost)" by (cases acc)
  from Cons show ?case
    by (auto simp: acc isl_def)
qed

text \<open>Whenever every entry is skipped or fails, the run ends in the division by zero.\<close>

lemma evaluate_model_no_result:
  assumes "\<forall>e\<in>set (limit_samples max_samples ground_truth_data).
             \<not> ex (e_video_path e) \<or> isl (run_inference e)"
  shows "evaluate_model ex run_inference elapsed model_name ground_truth_data fps
           media_resolution max_samples = Inl ZeroDivisionError"
  using evaluate_loop_none [OF assms, of elapsed model_name fps media_resolution "([], 0)"]
  by (simp add: evaluate_model_def calculate_metrics_def)

text \<open>
  The results of the loop are those of the entries that have a video and whose
  inference returns, in the order of the dataset; the others leave no trace.
\<close>

lemma evaluate_loop_results:
  "fst (evaluate_loop ex run_inference elapsed model_name fps media_resolution entries
          (results, total_cost))
     = results @ map (\<lambda>e. \<lparr> r_clip_id = e_clip_id e,
                     r_gt_shot_type = e_gt_shot_type e,
                     r_gt_result = e_gt_result e,
                     r_prediction = fst (projr (run_inference e)),
                     r_inference_time_s = elapsed e,
                     r_cost_usd = snd (projr (run_inference e)),
                     r_model_name = model_name,
                     r_fps = fps,
                     r_media_resolution = media_resolution \<rparr>)
                 (filter (\<lambda>e. ex (e_video_path e) \<and> \<not> isl (run_inference e)) entries)"
  by (induction entries arbitrary: results total_cost) (auto split: sum.splits)

text \<open>With at least one result and metrics that compute, the run returns.\<close>

lemma evaluate_model_returns:
  assumes "evaluate_loop ex run_inference elapsed model_name fps media_resolution
             (limit_samples max_samples ground_truth_data) ([], 0) = (results, total_cost)"
    and "results \<noteq> []"
    and "calculate_metrics results = Inr m"
  shows "evaluate_model ex run_inference elapsed model_name ground_truth_data fps
           media_resolution max_samples =
         Inr \<lparr> run_model_name = model_name,
               run_total_samples = length results,
               run_total_cost_usd = total_cost,
               run_average_inference_time_s =
                 sum_list (map r_inference_time_s results) / real (length results),
               run_metrics = m,
               run_results = results \<rparr>"
  using assms by (simp add: evaluate_model_def)

text \<open>
  Claim C3. A run in which no sample yields a result does not return: with the only
  video missing, or the only inference raising, \<open>results\<close> is empty and the average
  inference time divides by \<open>len(results) = 0\<close>. A prediction that parses to a JSON value
  other than an object makes \<open>_calculate_metrics\<close>, called outside the \<open>try\<close> of the
  loop, raise \<open>AttributeError\<close>.
\<close>

theorem evaluate_model_empty_results:
  "evaluate_model (\<lambda>p. False) (\<lambda>e. Inr (answer (PStr ''MAKE'') (PStr ''LAY_UP''), 0)) (\<lambda>e. 2)
       ''models/gemini-2.5-flash'' [sample_entry] 24 ''MEDIUM'' None = Inl ZeroDivisionError
   \<and> evaluate_model (\<lambda>p. True) (\<lambda>e. Inl RuntimeError) (\<lambda>e. 2)
       ''models/gemini-2.5-flash'' [sample_entry] 24 ''MEDIUM'' None = Inl ZeroDivisionError
   \<and> evaluate_model (\<lambda>p. True) (\<lambda>e. Inr (PList [], 0)) (\<lambda>e. 2)
       ''models/gemini-2.5-flash'' [sample_entry] 24 ''MEDIUM'' None = Inl AttributeError"
  by (simp add: evaluate_model_def limit_samples_def calculate_metrics_def
      metrics_step_def initial_counters_def)

end
